theory Spec2Isabelle
  imports Main "HOL-Library.Word"
begin

section \<open>Python values, exceptions and truthiness\<close>

text \<open>
  The wrapper class \<open>Bee\<close> of \<open>src/bee_py/bee.py\<close> takes loosely typed arguments
  (\<open>Union[Signer, bytes, str]\<close>, \<open>Optional[Union[Index, IndexBytes]]\<close>, ...).  They are
  modelled by one type of Python values.  \<open>PyObject n\<close> is an object of a class that defines
  neither \<open>__bool__\<close> nor \<open>__len__\<close>: \<open>PyObject c i\<close> is the object number \<open>i\<close> of the
  class named \<open>c\<close> (a \<open>Signer\<close>, a \<open>dict\<close> of upload options, the builtin \<open>type\<close>).
\<close>

type_synonym bytes = "8 word list"

datatype pyval =
    PyNone
  | PyBool bool
  | PyInt int
  | PyStr string
  | PyBytes bytes
  | PyObject string nat

text \<open>Python's truth value testing, as used by \<open>if x:\<close> and \<open>if not x:\<close>.\<close>

fun truthy :: "pyval \<Rightarrow> bool" where
  "truthy PyNone = False"
| "truthy (PyBool b) = b"
| "truthy (PyInt n) = (n \<noteq> 0)"
| "truthy (PyStr s) = (s \<noteq> [])"
| "truthy (PyBytes b) = (b \<noteq> [])"
| "truthy (PyObject c i) = True"

text \<open>
  A raised exception is the left injection of the result.  The constructors are the
  exception classes the source raises, with the message; \<open>BeeArgumentError\<close> also holds
  the offending value.  \<open>Raised c m\<close> is an exception of any
  other class \<open>c\<close>, raised by a collaborator outside \<open>bee.py\<close> (\<open>HTTPError\<close>,
  pydantic's \<open>ValidationError\<close>).
\<close>

datatype error =
    TypeError string
  | ValueError string
  | AttributeError string
  | BeeError string
  | BeeArgumentError string pyval
  | Raised string string

text \<open>\<open>except BeeError\<close> catches \<open>BeeError\<close> and its subclass \<open>BeeArgumentError\<close>.\<close>

fun is_BeeError :: "error \<Rightarrow> bool" where
  "is_BeeError (BeeError m) = True"
| "is_BeeError (BeeArgumentError m v) = True"
| "is_BeeError e = False"

text \<open>
  The class \<open>BeeArgumentError\<close> (\<open>bee_py/utils/error.py\<close>) is not among the sources.  Its
  constructor takes the message and the offending value, both required: every
  construction in \<open>bee_py/utils/type.py\<close> passes both, \<open>BeeArgumentError(msg, options.retry)\<close>.
  \<open>raise_BeeArgumentError msg value\<close> is what \<open>raise BeeArgumentError(...)\<close> raises: the
  error itself where the value is passed, and the constructor's \<open>TypeError\<close> where the call
  leaves the value out (\<open>value = None\<close>), as \<open>BeeArgumentError(msg)\<close> does.
\<close>

definition raise_BeeArgumentError :: "string \<Rightarrow> pyval option \<Rightarrow> error" where
  "raise_BeeArgumentError msg value =
     (case value of
        Some v \<Rightarrow> BeeArgumentError msg v
      | None \<Rightarrow>
          TypeError (''BeeArgumentError.__init__() missing 1 required positional argument: ''
                       @ [CHR 0x27] @ ''value'' @ [CHR 0x27]))"

section \<open>The Bee instance\<close>

text \<open>
  \<open>retry\<close> and \<open>timeout\<close> are the two fields of \<open>BeeRequestOptions\<close> that the source
  reads (\<open>assert_request_options\<close>).
\<close>

record BeeRequestOptions =
  retry :: pyval
  timeout :: pyval

text \<open>
  The instance attributes of \<open>Bee\<close>.  \<open>__init__\<close> assigns \<open>self.signer\<close> only when the
  options hold a \<open>"signer"\<close> entry, and the class body only annotates the name, so the
  attribute may be missing: \<open>bee_signer = None\<close>.  Reading it then raises \<open>AttributeError\<close>.
\<close>

record Bee =
  bee_url :: string
  bee_signer :: "pyval option"
  bee_request_options :: BeeRequestOptions

definition no_attribute :: "string \<Rightarrow> error" where
  "no_attribute name =
     AttributeError ([CHR 0x27] @ ''Bee'' @ [CHR 0x27] @ '' object has no attribute ''
        @ [CHR 0x27] @ name @ [CHR 0x27])"

subsection \<open>Resolving the signer\<close>

text \<open>
  \<^verbatim>\<open>
  def ___resolve_signer(self, signer=None) -> Signer:
      if signer:
          msg = "You have to pass Signer as property to either the method call or constructor! Non found."
          raise ValueError(msg)
      if self.signer:
          return self.signer
  \<close>
  Inside the class body the name is mangled to \<open>_Bee___resolve_signer\<close>.  A function
  body that ends without \<open>return\<close> returns \<open>None\<close>.
\<close>

definition Bee___resolve_signer :: "Bee \<Rightarrow> pyval \<Rightarrow> error + pyval" where
  "Bee___resolve_signer self signer =
     (if truthy signer then
        Inl (ValueError
          ''You have to pass Signer as property to either the method call or constructor! Non found.'')
      else
        (case bee_signer self of
           None \<Rightarrow> Inl (no_attribute ''signer'')
         | Some s \<Rightarrow> if truthy s then Inr s else Inr PyNone))"

section \<open>Request options\<close>

text \<open>
  An \<open>options\<close> argument is \<open>None\<close>, a \<open>BeeRequestOptions\<close> model, a \<open>dict\<close> or, since
  Python does not enforce the annotation, any other value.
\<close>

datatype options_arg =
    OptionsNone
  | OptionsModel BeeRequestOptions
  | OptionsDict "(string \<times> pyval) list"
  | OptionsOther pyval

fun truthy_options :: "options_arg \<Rightarrow> bool" where
  "truthy_options OptionsNone = False"
| "truthy_options (OptionsModel m) = True"
| "truthy_options (OptionsDict d) = (d \<noteq> [])"
| "truthy_options (OptionsOther v) = truthy v"

text \<open>\<open>isinstance(v, int)\<close>; \<open>bool\<close> is a subclass of \<open>int\<close>, with \<open>False == 0\<close> and \<open>True == 1\<close>.\<close>

fun isinstance_int :: "pyval \<Rightarrow> bool" where
  "isinstance_int (PyInt n) = True"
| "isinstance_int (PyBool b) = True"
| "isinstance_int v = False"

fun int_value :: "pyval \<Rightarrow> int" where
  "int_value (PyInt n) = n"
| "int_value (PyBool b) = (if b then 1 else 0)"
| "int_value v = 0"

text \<open>The name of \<open>type(v)\<close>, as an f-string prints it inside \<open><class '...'>\<close>.\<close>

fun type_name :: "pyval \<Rightarrow> string" where
  "type_name PyNone = ''NoneType''"
| "type_name (PyBool b) = ''bool''"
| "type_name (PyInt n) = ''int''"
| "type_name (PyStr s) = ''str''"
| "type_name (PyBytes b) = ''bytes''"
| "type_name (PyObject c i) = c"

text \<open>\<open>str(n)\<close> of a non-negative number, for the f-strings that print a length.\<close>

fun str_nat :: "nat \<Rightarrow> string" where
  "str_nat n =
     (if n < 10 then [''0123456789'' ! n]
      else str_nat (n div 10) @ [''0123456789'' ! (n mod 10)])"

section \<open>Feed types\<close>

text \<open>
  Modelled from the spec: the enumeration \<open>FeedType\<close> (\<open>bee_py/types/type.py\<close> is not among
  the sources).  The spec names the two index schemes \<open>sequence\<close> and \<open>epoch\<close>.
\<close>

datatype FeedType = EPOCH | SEQUENCE

fun FeedType_value :: "FeedType \<Rightarrow> string" where
  "FeedType_value EPOCH = ''epoch''"
| "FeedType_value SEQUENCE = ''sequence''"

text \<open>What a caller passes where \<open>Union[FeedType, str]\<close> is annotated.\<close>

datatype feed_type_arg =
    FeedTypeMember FeedType
  | FeedTypeStr string
  | FeedTypeOther pyval

section \<open>Collaborators\<close>

text \<open>
  \<open>bee.py\<close> imports these from modules that are not among the sources; each is taken as
  given.  They are the transport, the canonical forms of owner and topic, the feed reader
  and writer factories, the Keccak hash, and pydantic's validation.
  \<^item> \<open>make_eth_address\<close>, \<open>make_hex_eth_address\<close> (\<open>bee_py.utils.eth\<close>) and \<open>make_topic\<close>
    (\<open>bee_py.feed.topic\<close>);
  \<^item> \<open>model_validate\<close> is \<open>BeeRequestOptions.model_validate\<close>;
  \<^item> \<open>merge_request_options a b\<close> is the dictionary display \<open>{**a, **b}\<close>;
  \<^item> \<open>feed_make_feed_reader ro args\<close> is \<open>_make_feed_reader(ro, *args)\<close> and
    \<open>feed_make_feed_writer\<close> likewise (\<open>bee_py.feed.feed\<close>);
  \<^item> \<open>FeedType_members_are_str\<close> tells whether \<open>FeedType\<close> mixes in \<open>str\<close>, that is whether
    \<open>isinstance(FeedType.SEQUENCE, str)\<close>;
  \<^item> \<open>assert_upload_options\<close> (\<open>bee_py/utils/type.py\<close>) rests on the pydantic model
    \<open>UploadOptions\<close>, which is not among the sources; its outcome is taken as given;
  \<^item> \<open>chunk_api_upload\<close> is \<open>bee_py.modules.chunk.upload\<close>;
  \<^item> \<open>transport_exists ro address\<close> is the existence probe of the transport;
  \<^item> \<open>keccak256\<close> is the hash.
\<close>

record FeedReader =
  reader_download :: "options_arg \<Rightarrow> error + pyval"

record collaborators =
  make_eth_address :: "pyval \<Rightarrow> error + bytes"
  make_hex_eth_address :: "pyval \<Rightarrow> error + string"
  make_topic :: "pyval \<Rightarrow> error + bytes"
  model_validate :: "(string \<times> pyval) list \<Rightarrow> error + BeeRequestOptions"
  merge_request_options :: "BeeRequestOptions \<Rightarrow> options_arg \<Rightarrow> error + options_arg"
  feed_make_feed_reader :: "options_arg \<Rightarrow> pyval list \<Rightarrow> error + FeedReader"
  feed_make_feed_writer :: "options_arg \<Rightarrow> pyval list \<Rightarrow> error + pyval"
  FeedType_members_are_str :: bool
  assert_upload_options :: "pyval \<Rightarrow> error + unit"
  chunk_api_upload :: "options_arg \<Rightarrow> bytes \<Rightarrow> pyval \<Rightarrow> pyval \<Rightarrow> error + pyval"
  transport_exists :: "options_arg \<Rightarrow> bytes \<Rightarrow> bool"
  keccak256 :: "bytes \<Rightarrow> bytes"

section \<open>Validation (\<open>bee_py/utils/type.py\<close>)\<close>

text \<open>
  \<^verbatim>\<open>
  def assert_request_options(options, name="RequestOptions"):
      if options is None:
          return
      if not isinstance(options, BeeRequestOptions):
          if not isinstance(options, dict):
              msg = f"Options must be an instance of BeeRequestOptions or dictionary. Got: {type(options)}"
              raise TypeError(msg)
      if isinstance(options, dict):
          options = BeeRequestOptions.model_validate(options)
      if options.retry:
          if not isinstance(options.retry, int) or options.retry < 0:
              msg = f"{name}.retry has to be a non-negative integer!"
              raise BeeArgumentError(msg, options.retry)
      if options.timeout:
          if not isinstance(options.timeout, int) or options.timeout < 0:
              msg = f"{name}.timeout has to be a non-negative integer!"
              raise BeeArgumentError(msg, options.timeout)
  \<close>
\<close>

definition check_retry_timeout :: "BeeRequestOptions \<Rightarrow> string \<Rightarrow> error + unit" where
  "check_retry_timeout options name =
     (if truthy (retry options) \<and>
         (\<not> isinstance_int (retry options) \<or> int_value (retry options) < 0) then
        Inl (raise_BeeArgumentError (name @ ''.retry has to be a non-negative integer!'')
               (Some (retry options)))
      else if truthy (timeout options) \<and>
         (\<not> isinstance_int (timeout options) \<or> int_value (timeout options) < 0) then
        Inl (raise_BeeArgumentError (name @ ''.timeout has to be a non-negative integer!'')
               (Some (timeout options)))
      else Inr ())"

fun assert_request_options :: "collaborators \<Rightarrow> options_arg \<Rightarrow> string \<Rightarrow> error + unit" where
  "assert_request_options env OptionsNone name = Inr ()"
| "assert_request_options env (OptionsOther v) name =
     Inl (TypeError (''Options must be an instance of BeeRequestOptions or dictionary. Got: <class ''
            @ [CHR 0x27] @ type_name v @ [CHR 0x27] @ ''>''))"
| "assert_request_options env (OptionsDict d) name =
     (case model_validate env d of
        Inl e \<Rightarrow> Inl e
      | Inr options \<Rightarrow> check_retry_timeout options name)"
| "assert_request_options env (OptionsModel options) name = check_retry_timeout options name"

text \<open>
  \<^verbatim>\<open>
  def is_feed_type(_type):
      return isinstance(_type, str) and _type in [member.value for member in FeedType]

  def assert_feed_type(_type):
      if not is_feed_type(_type):
          msg = "Invalid feed type"
          raise TypeError(msg)
  \<close>
  A member that is a \<open>str\<close> equals its own value.
\<close>

fun is_feed_type :: "collaborators \<Rightarrow> feed_type_arg \<Rightarrow> bool" where
  "is_feed_type env (FeedTypeStr s) = (s \<in> set (map FeedType_value [EPOCH, SEQUENCE]))"
| "is_feed_type env (FeedTypeMember m) =
     (FeedType_members_are_str env \<and> FeedType_value m \<in> set (map FeedType_value [EPOCH, SEQUENCE]))"
| "is_feed_type env (FeedTypeOther v) = False"

definition assert_feed_type :: "collaborators \<Rightarrow> feed_type_arg \<Rightarrow> error + unit" where
  "assert_feed_type env t =
     (if \<not> is_feed_type env t then Inl (TypeError ''Invalid feed type'') else Inr ())"

section \<open>Feed index codec and address derivation\<close>

text \<open>
  Modelled from the spec: the feed index codec and the derivation of a feed update's
  address (\<open>bee_py/feed\<close> is not among the sources).  The spec's data model: an index is a
  sequence number (unsigned 64-bit) or an epoch (base: uint64, level: uint8).  A sequence
  index is encoded as an 8-byte big-endian value left-padded with zeros to 32 bytes, an
  epoch as base (8 bytes, big-endian), level (1 byte) and 23 bytes of zero padding.
  Decoding reads the same layout, selected by the feed type.
\<close>

datatype Index = SequenceIndex "64 word" | EpochIndex "64 word" "8 word"

fun Index_type :: "Index \<Rightarrow> FeedType" where
  "Index_type (SequenceIndex n) = SEQUENCE"
| "Index_type (EpochIndex base level) = EPOCH"

definition write_uint64_big_endian :: "64 word \<Rightarrow> bytes" where
  "write_uint64_big_endian w = map (\<lambda>i. ucast (drop_bit (8 * i) w)) [7, 6, 5, 4, 3, 2, 1, 0 :: nat]"

definition read_uint64_big_endian :: "bytes \<Rightarrow> 64 word" where
  "read_uint64_big_endian bs = foldl (\<lambda>acc b. or (push_bit 8 acc) (ucast b)) 0 bs"

fun encode_index :: "Index \<Rightarrow> bytes" where
  "encode_index (SequenceIndex n) = replicate 24 0 @ write_uint64_big_endian n"
| "encode_index (EpochIndex base level) = write_uint64_big_endian base @ [level] @ replicate 23 0"

fun decode_index :: "FeedType \<Rightarrow> bytes \<Rightarrow> Index option" where
  "decode_index SEQUENCE bs =
     (if length bs = 32 then Some (SequenceIndex (read_uint64_big_endian (drop 24 bs)))
      else None)"
| "decode_index EPOCH bs =
     (if length bs = 32 then Some (EpochIndex (read_uint64_big_endian (take 8 bs)) (bs ! 8))
      else None)"

text \<open>Feed identifier: hash(index-bytes, topic).  SOC address: hash(identifier, owner).\<close>

definition feed_identifier :: "collaborators \<Rightarrow> bytes \<Rightarrow> Index \<Rightarrow> bytes" where
  "feed_identifier env topic i = keccak256 env (encode_index i @ topic)"

definition soc_address :: "collaborators \<Rightarrow> bytes \<Rightarrow> bytes \<Rightarrow> bytes" where
  "soc_address env identifier owner = keccak256 env (identifier @ owner)"

text \<open>
  Modelled from the spec: \<open>are_all_sequential_feeds_update_retrievable\<close>
  (\<open>bee_py/feed/retrievable.py\<close> is not among the sources).  It enumerates every index from
  0 up to the target index inclusive, derives each SOC address and queries existence for
  each; it returns true only if all are retrievable and false on the first failure.
\<close>

fun all_retrievable :: "(bytes \<Rightarrow> bool) \<Rightarrow> bytes list \<Rightarrow> bool" where
  "all_retrievable ex [] = True"
| "all_retrievable ex (a # as) = (if ex a then all_retrievable ex as else False)"

definition sequence_update_address :: "collaborators \<Rightarrow> bytes \<Rightarrow> bytes \<Rightarrow> int \<Rightarrow> bytes" where
  "sequence_update_address env owner topic i =
     soc_address env (feed_identifier env topic (SequenceIndex (word_of_int i))) owner"

definition are_all_sequential_feeds_update_retrievable ::
  "collaborators \<Rightarrow> bytes \<Rightarrow> bytes \<Rightarrow> int \<Rightarrow> options_arg \<Rightarrow> bool" where
  "are_all_sequential_feeds_update_retrievable env owner topic index ro =
     all_retrievable (transport_exists env ro)
       (map (sequence_update_address env owner topic) [0..index])"

section \<open>Methods of \<open>Bee\<close> (\<open>bee_py/bee.py\<close>)\<close>

text \<open>
  \<^verbatim>\<open>
  def __get_request_options_for_call(self, options=None):
      if options:
          return {**self.request_options, **options}
      else:
          return self.request_options
  \<close>
\<close>

definition Bee__get_request_options_for_call ::
  "collaborators \<Rightarrow> Bee \<Rightarrow> options_arg \<Rightarrow> error + options_arg" where
  "Bee__get_request_options_for_call env self options =
     (if truthy_options options then merge_request_options env (bee_request_options self) options
      else Inr (OptionsModel (bee_request_options self)))"

text \<open>
  \<^verbatim>\<open>
  def __make_feed_reader(self, feed_type, topic, owner, options=None):
      assert_request_options(options)
      canonical_topic = make_topic(topic)
      canonical_owner = make_hex_eth_address(owner)
      return _make_feed_reader(
          self.__get_request_options_for_call(options), feed_type, canonical_topic, canonical_owner
      )
  \<close>
\<close>

definition Bee__make_feed_reader ::
  "collaborators \<Rightarrow> Bee \<Rightarrow> pyval \<Rightarrow> pyval \<Rightarrow> pyval \<Rightarrow> options_arg \<Rightarrow> error + FeedReader" where
  "Bee__make_feed_reader env self feed_type topic owner options =
     (case assert_request_options env options ''RequestOptions'' of
        Inl e \<Rightarrow> Inl e
      | Inr u \<Rightarrow>
     (case make_topic env topic of
        Inl e \<Rightarrow> Inl e
      | Inr canonical_topic \<Rightarrow>
     (case make_hex_eth_address env owner of
        Inl e \<Rightarrow> Inl e
      | Inr canonical_owner \<Rightarrow>
     (case Bee__get_request_options_for_call env self options of
        Inl e \<Rightarrow> Inl e
      | Inr ro \<Rightarrow>
          feed_make_feed_reader env ro
            [feed_type, PyBytes canonical_topic, PyStr canonical_owner]))))"

text \<open>The builtin \<open>type\<close>, which two methods pass where the parameter \<open>feed_type\<close> was meant.\<close>

definition builtin_type :: pyval where
  "builtin_type = PyObject ''type'' 0"

text \<open>
  The index of a sequence feed is a number, so the optional argument \<open>index\<close> is
  \<open>None\<close> or \<open>Some n\<close>; the byte and string forms of an index are left out.
\<close>

fun index_value :: "int option \<Rightarrow> pyval" where
  "index_value None = PyNone"
| "index_value (Some n) = PyInt n"

text \<open>The number passed on to the prefix check; it is read only where \<open>index\<close> is truthy.\<close>

fun index_number :: "int option \<Rightarrow> int" where
  "index_number None = 0"
| "index_number (Some n) = n"

text \<open>
  \<^verbatim>\<open>
  def is_feed_retrievable(self, feed_type, owner, topic, index=None, options=None) -> bool:
      canonical_owner = make_eth_address(owner)
      canonical_topic = make_topic(topic)

      # If no index is passed, try downloading the feed and return true if successful
      if not index:
          try:
              self.__make_feed_reader(type, canonical_topic, canonical_owner).download(options)
              return True
          except BeeError as e:
              raise e

      # If index is passed, check the availability of all previous sequence index chunks
      if feed_type != FeedType.SEQUENCE:
          msg = "Only Sequence type of Feeds is supported at the moment"
          raise BeeError(msg)

      return are_all_sequential_feeds_update_retrievable(
          canonical_owner, canonical_topic, index, self.__get_request_options_for_call(options),
      )
  \<close>
  The handler re-raises the exception it catches; an exception of another class passes
  through untouched.
\<close>

definition reraise_BeeError :: "error \<Rightarrow> error + bool" where
  "reraise_BeeError e = (if is_BeeError e then Inl e else Inl e)"

definition is_feed_retrievable ::
  "collaborators \<Rightarrow> Bee \<Rightarrow> FeedType \<Rightarrow> pyval \<Rightarrow> pyval \<Rightarrow> int option \<Rightarrow> options_arg \<Rightarrow> error + bool" where
  "is_feed_retrievable env self feed_type owner topic index options =
     (case make_eth_address env owner of
        Inl e \<Rightarrow> Inl e
      | Inr canonical_owner \<Rightarrow>
     (case make_topic env topic of
        Inl e \<Rightarrow> Inl e
      | Inr canonical_topic \<Rightarrow>
     (if \<not> truthy (index_value index) then
        (case Bee__make_feed_reader env self builtin_type
                (PyBytes canonical_topic) (PyBytes canonical_owner) OptionsNone of
           Inl e \<Rightarrow> reraise_BeeError e
         | Inr reader \<Rightarrow>
             (case reader_download reader options of
                Inl e \<Rightarrow> reraise_BeeError e
              | Inr update \<Rightarrow> Inr True))
      else if feed_type \<noteq> SEQUENCE then
        Inl (BeeError ''Only Sequence type of Feeds is supported at the moment'')
      else
        (case Bee__get_request_options_for_call env self options of
           Inl e \<Rightarrow> Inl e
         | Inr ro \<Rightarrow>
             Inr (are_all_sequential_feeds_update_retrievable env
                    canonical_owner canonical_topic (index_number index) ro)))))"

text \<open>
  Modelled from the spec: the constants \<open>SPAN_SIZE\<close> and \<open>CHUNK_SIZE\<close>
  (\<open>bee_py/types/type.py\<close> is not among the sources).  The spec's data model: a chunk is a
  span of 8 bytes and a payload of at most 4096 bytes.
\<close>

definition SPAN_SIZE :: nat where
  "SPAN_SIZE = 8"

definition CHUNK_SIZE :: nat where
  "CHUNK_SIZE = 4096"

text \<open>
  \<^verbatim>\<open>
  def upload_chunk(self, postage_batch_id, data, options=None, request_options=None):
      if not isinstance(data, bytes):
          msg = "Data must be a bytes object!"
          raise TypeError(msg)
      if len(data) < SPAN_SIZE:
          msg = f"Chunk must have a minimum size of {SPAN_SIZE} bytes. Received chunk size: {len(data)}"
          raise BeeArgumentError(msg)
      if len(data) > CHUNK_SIZE + SPAN_SIZE:
          msg = f"Chunk must have a maximum size of {CHUNK_SIZE} bytes. Received chunk size: {len(data)}"
          raise BeeArgumentError(msg)
      if options is not None:
          assert_upload_options(options)
      return chunk_api.upload(self.__get_request_options_for_call(request_options), data, postage_batch_id, options)
  \<close>
  \<open>after_size_checks\<close> is the part of the body that follows the two size checks.  Both
  size checks construct the error from the message alone.
\<close>

definition after_size_checks ::
  "collaborators \<Rightarrow> Bee \<Rightarrow> pyval \<Rightarrow> bytes \<Rightarrow> pyval \<Rightarrow> options_arg \<Rightarrow> error + pyval" where
  "after_size_checks env self postage_batch_id data options request_options =
     (case (if options \<noteq> PyNone then assert_upload_options env options else Inr ()) of
        Inl e \<Rightarrow> Inl e
      | Inr u \<Rightarrow>
     (case Bee__get_request_options_for_call env self request_options of
        Inl e \<Rightarrow> Inl e
      | Inr ro \<Rightarrow> chunk_api_upload env ro data postage_batch_id options))"

definition upload_chunk ::
  "collaborators \<Rightarrow> Bee \<Rightarrow> pyval \<Rightarrow> pyval \<Rightarrow> pyval \<Rightarrow> options_arg \<Rightarrow> error + pyval" where
  "upload_chunk env self postage_batch_id data options request_options =
     (case data of
        PyBytes b \<Rightarrow>
          if length b < SPAN_SIZE then
            Inl (raise_BeeArgumentError
                   (''Chunk must have a minimum size of '' @ str_nat SPAN_SIZE
                      @ '' bytes. Received chunk size: '' @ str_nat (length b)) None)
          else if length b > CHUNK_SIZE + SPAN_SIZE then
            Inl (raise_BeeArgumentError
                   (''Chunk must have a maximum size of '' @ str_nat CHUNK_SIZE
                      @ '' bytes. Received chunk size: '' @ str_nat (length b)) None)
          else after_size_checks env self postage_batch_id b options request_options
      | _ \<Rightarrow> Inl (TypeError ''Data must be a bytes object!''))"

subsection \<open>Attribute lookup on a \<open>Bee\<close> instance\<close>

text \<open>
  \<open>self.name\<close> finds an instance attribute or a name bound in the class body; otherwise
  it raises \<open>AttributeError\<close>.  (The names inherited from \<open>object\<close> all begin and end with
  two underscores and are left out.)  Inside the class body a name that begins with two
  underscores and does not end with two is mangled: \<open>___resolve_signer\<close> is bound as
  \<open>_Bee___resolve_signer\<close>.  Of the members only the signer resolution is called through
  a lookup that the model needs, so it alone carries its function.
\<close>

datatype bee_attribute = SignerResolver "pyval \<Rightarrow> error + pyval" | Member

definition Bee_instance_attributes :: "Bee \<Rightarrow> (string \<times> bee_attribute) list" where
  "Bee_instance_attributes self =
     [(''url'', Member)]
     @ (case bee_signer self of None \<Rightarrow> [] | Some s \<Rightarrow> [(''signer'', Member)])
     @ [(''request_options'', Member)]"

definition Bee_method_names :: "string list" where
  "Bee_method_names =
     [''__init__'', ''_Bee__get_request_options_for_call'', ''_Bee__make_feed_reader'',
      ''make_feed_topic'', ''upload_data'', ''download_data'',
      ''download_readable_data'', ''upload_chunk'', ''download_chunk'',
      ''upload_file'', ''download_file'', ''download_readable_file'',
      ''upload_files'', ''upload_collection'', ''upload_files_from_directory'',
      ''create_tag'', ''get_all_tags'', ''delete_tag'',
      ''update_tag'', ''pin'', ''unpin'',
      ''get_all_pins'', ''get_pin'', ''reupload_pinned_data'',
      ''is_reference_retrievable'', ''is_feed_retrievable'', ''pss_send'',
      ''pss_subscribe'', ''pss_receive'', ''create_feed_manifest'',
      ''make_feed_reader'', ''make_feed_writer'', ''set_json_feed'',
      ''get_json_feed'', ''make_soc_reader'', ''make_soc_writer'',
      ''check_connection'', ''is_connected'']"

definition Bee_class_attributes :: "Bee \<Rightarrow> (string \<times> bee_attribute) list" where
  "Bee_class_attributes self =
     (''_Bee___resolve_signer'', SignerResolver (Bee___resolve_signer self))
     # map (\<lambda>name. (name, Member)) Bee_method_names"

definition Bee_getattr :: "Bee \<Rightarrow> string \<Rightarrow> error + bee_attribute" where
  "Bee_getattr self name =
     (case map_of (Bee_instance_attributes self @ Bee_class_attributes self) name of
        None \<Rightarrow> Inl (no_attribute name)
      | Some a \<Rightarrow> Inr a)"

fun call_attribute :: "bee_attribute \<Rightarrow> pyval \<Rightarrow> error + pyval" where
  "call_attribute (SignerResolver f) v = f v"
| "call_attribute Member v = Inl (TypeError ''wrong number of arguments'')"

text \<open>
  \<^verbatim>\<open>
  def make_feed_reader(self, feed_type, topic, signer, options=None) -> FeedReader:
      assert_feed_type(feed_type)
      assert_request_options(options)
      canonical_topic = make_topic(topic)
      canonical_singer = self.resolve_signer(signer)
      return _make_feed_reader(
          self.__get_request_options_for_call(options), type, canonical_topic, canonical_singer, canonical_singer
      )

  def make_feed_writer(self, feed_type, topic, signer, options=None) -> FeedWriter:
      assert_request_options(options)
      assert_feed_type(feed_type)
      canonical_topic = make_topic(topic)
      canonical_singer = self.resolve_signer(signer)
      return _make_feed_writer(self.__get_request_options_for_call(options), type, canonical_topic, canonical_singer)
  \<close>
\<close>

definition make_feed_reader ::
  "collaborators \<Rightarrow> Bee \<Rightarrow> feed_type_arg \<Rightarrow> pyval \<Rightarrow> pyval \<Rightarrow> options_arg \<Rightarrow> error + FeedReader" where
  "make_feed_reader env self feed_type topic signer options =
     (case assert_feed_type env feed_type of
        Inl e \<Rightarrow> Inl e
      | Inr u \<Rightarrow>
     (case assert_request_options env options ''RequestOptions'' of
        Inl e \<Rightarrow> Inl e
      | Inr u \<Rightarrow>
     (case make_topic env topic of
        Inl e \<Rightarrow> Inl e
      | Inr canonical_topic \<Rightarrow>
     (case Bee_getattr self ''resolve_signer'' of
        Inl e \<Rightarrow> Inl e
      | Inr resolve_signer \<Rightarrow>
     (case call_attribute resolve_signer signer of
        Inl e \<Rightarrow> Inl e
      | Inr canonical_singer \<Rightarrow>
     (case Bee__get_request_options_for_call env self options of
        Inl e \<Rightarrow> Inl e
      | Inr ro \<Rightarrow>
          feed_make_feed_reader env ro
            [builtin_type, PyBytes canonical_topic, canonical_singer, canonical_singer]))))))"

definition make_feed_writer ::
  "collaborators \<Rightarrow> Bee \<Rightarrow> feed_type_arg \<Rightarrow> pyval \<Rightarrow> pyval \<Rightarrow> options_arg \<Rightarrow> error + pyval" where
  "make_feed_writer env self feed_type topic signer options =
     (case assert_request_options env options ''RequestOptions'' of
        Inl e \<Rightarrow> Inl e
      | Inr u \<Rightarrow>
     (case assert_feed_type env feed_type of
        Inl e \<Rightarrow> Inl e
      | Inr u \<Rightarrow>
     (case make_topic env topic of
        Inl e \<Rightarrow> Inl e
      | Inr canonical_topic \<Rightarrow>
     (case Bee_getattr self ''resolve_signer'' of
        Inl e \<Rightarrow> Inl e
      | Inr resolve_signer \<Rightarrow>
     (case call_attribute resolve_signer signer of
        Inl e \<Rightarrow> Inl e
      | Inr canonical_singer \<Rightarrow>
     (case Bee__get_request_options_for_call env self options of
        Inl e \<Rightarrow> Inl e
      | Inr ro \<Rightarrow>
          feed_make_feed_writer env ro
            [builtin_type, PyBytes canonical_topic, canonical_singer]))))))"

section \<open>A concrete setting\<close>

text \<open>
  Collaborators small enough to evaluate: the feed reader's download has the outcome
  \<open>latest\<close>, the transport holds exactly the chunks \<open>ex\<close> accepts, and the hash is the
  identity on byte strings.
\<close>

definition example_request_options :: BeeRequestOptions where
  "example_request_options = \<lparr> retry = PyNone, timeout = PyInt 300 \<rparr>"

definition example_bee :: Bee where
  "example_bee =
     \<lparr> bee_url = ''http://localhost:1633'', bee_signer = None,
       bee_request_options = example_request_options \<rparr>"

definition example_bytes :: "pyval \<Rightarrow> error + bytes" where
  "example_bytes v = (case v of PyBytes b \<Rightarrow> Inr b | _ \<Rightarrow> Inl (TypeError ''invalid data''))"

definition example_env :: "(error + pyval) \<Rightarrow> (bytes \<Rightarrow> bool) \<Rightarrow> collaborators" where
  "example_env latest ex =
     \<lparr> make_eth_address = example_bytes,
       make_hex_eth_address = (\<lambda>v. Inr ''8d3766440f0d7b949a5e32995d09619a7f86e632''),
       make_topic = example_bytes,
       model_validate = (\<lambda>d. Inr \<lparr> retry = PyNone, timeout = PyNone \<rparr>),
       merge_request_options = (\<lambda>a b. Inr b),
       feed_make_feed_reader = (\<lambda>ro args. Inr \<lparr> reader_download = (\<lambda>options. latest) \<rparr>),
       feed_make_feed_writer = (\<lambda>ro args. Inr (PyObject ''FeedWriter'' 0)),
       FeedType_members_are_str = False,
       assert_upload_options = (\<lambda>v. Inr ()),
       chunk_api_upload = (\<lambda>ro data postage_batch_id options. Inr (PyStr ''reference'')),
       transport_exists = (\<lambda>ro. ex),
       keccak256 = (\<lambda>b. b) \<rparr>"

definition example_owner :: bytes where
  "example_owner = replicate 20 1"

definition example_topic :: bytes where
  "example_topic = replicate 32 2"

section \<open>Feed index codec\<close>

lemma length_write_uint64_big_endian: "length (write_uint64_big_endian w) = 8"
  by (simp add: write_uint64_big_endian_def)

lemma read_write_uint64_big_endian: "read_uint64_big_endian (write_uint64_big_endian w) = w"
proof (rule bit_word_eqI)
  fix n :: nat
  assume "n < LENGTH(64)"
  then have n: "n < 64" by simp
  let ?r = "read_uint64_big_endian (write_uint64_big_endian w)"
  have bits: "bit ?r n =
     (56 \<le> n \<and> n - 56 < 64 \<and> n - 56 < 8 \<and> bit w (56 + (n - 56)) \<or>
      48 \<le> n \<and> n - 48 < 64 \<and> n - 48 < 8 \<and> bit w (48 + (n - 48)) \<or>
      40 \<le> n \<and> n - 40 < 64 \<and> n - 40 < 8 \<and> bit w (40 + (n - 40)) \<or>
      32 \<le> n \<and> n - 32 < 64 \<and> n - 32 < 8 \<and> bit w (32 + (n - 32)) \<or>
      24 \<le> n \<and> n - 24 < 64 \<and> n - 24 < 8 \<and> bit w (24 + (n - 24)) \<or>
      16 \<le> n \<and> n - 16 < 64 \<and> n - 16 < 8 \<and> bit w (16 + (n - 16)) \<or>
      8 \<le> n \<and> n - 8 < 64 \<and> n - 8 < 8 \<and> bit w (8 + (n - 8)) \<or>
      n < 8 \<and> bit w n)"
    using n by (simp add: read_uint64_big_endian_def write_uint64_big_endian_def bit_simps)
  consider "n < 8" | "8 \<le> n" "n < 16" | "16 \<le> n" "n < 24" | "24 \<le> n" "n < 32"
    | "32 \<le> n" "n < 40" | "40 \<le> n" "n < 48" | "48 \<le> n" "n < 56" | "56 \<le> n"
    by linarith
  then show "bit ?r n = bit w n"
  proof cases
    case 1 then show ?thesis unfolding bits by auto
  next
    case 2 then show ?thesis unfolding bits by auto
  next
    case 3 then show ?thesis unfolding bits by auto
  next
    case 4 then show ?thesis unfolding bits by auto
  next
    case 5 then show ?thesis unfolding bits by auto
  next
    case 6 then show ?thesis unfolding bits by auto
  next
    case 7 then show ?thesis unfolding bits by auto
  next
    case 8 with n show ?thesis unfolding bits by auto
  qed
qed

text \<open>
  C5.  For every sequence index in 0..2^64-1 and every epoch (base, level), the encoded
  form has exactly 32 bytes, and decoding it under the index's own feed type returns the
  original index.
\<close>

theorem index_codec_round_trip:
  "length (encode_index x) = 32 \<and> decode_index (Index_type x) (encode_index x) = Some x"
  by (cases x)
    (simp_all add: read_write_uint64_big_endian length_write_uint64_big_endian nth_append)

section \<open>Resolving the signer\<close>

lemma resolve_signer_default:
  "Bee___resolve_signer (self\<lparr>bee_signer := Some (PyObject c i)\<rparr>) PyNone = Inr (PyObject c i)"
  by (simp add: Bee___resolve_signer_def)

lemma resolve_signer_nothing_given:
  "Bee___resolve_signer (self\<lparr>bee_signer := None\<rparr>) PyNone = Inl (no_attribute ''signer'')"
  by (simp add: Bee___resolve_signer_def)

text \<open>
  C3.  The claim is that an explicitly passed signer is returned.  The code tests
  \<open>if signer:\<close> and raises there: with a default signer set on the instance and another
  signer passed to the call, the resolution raises \<open>ValueError\<close> instead of returning
  the passed signer.
\<close>

theorem resolve_signer_raises_for_explicit_signer:
  "Bee___resolve_signer (example_bee\<lparr>bee_signer := Some (PyObject ''Signer'' 1)\<rparr>)
     (PyObject ''Signer'' 2)
   = Inl (ValueError
       ''You have to pass Signer as property to either the method call or constructor! Non found.'')"
  by (simp add: Bee___resolve_signer_def)

section \<open>Chunk size bound\<close>

text \<open>
  What the two size checks do: a byte string shorter than 8 bytes or longer than 4104
  bytes stops the upload with the \<open>TypeError\<close> of the error's constructor, the size error
  itself is never raised; a byte string of exactly 4104 bytes goes on past both checks.
\<close>

lemma upload_chunk_size_checks:
  "(length b < 8 \<longrightarrow>
      upload_chunk env self postage_batch_id (PyBytes b) options request_options =
        Inl (raise_BeeArgumentError
               (''Chunk must have a minimum size of 8 bytes. Received chunk size: ''
                  @ str_nat (length b)) None))
   \<and> (length b = 4104 \<longrightarrow>
      upload_chunk env self postage_batch_id (PyBytes b) options request_options =
        after_size_checks env self postage_batch_id b options request_options)
   \<and> (4105 \<le> length b \<longrightarrow>
      upload_chunk env self postage_batch_id (PyBytes b) options request_options =
        Inl (raise_BeeArgumentError
               (''Chunk must have a maximum size of 4096 bytes. Received chunk size: ''
                  @ str_nat (length b)) None))"
  by (simp add: upload_chunk_def SPAN_SIZE_def CHUNK_SIZE_def)

lemma upload_chunk_size_checks_witness:
  "length (replicate 4104 (0 :: 8 word)) = 4104
   \<and> upload_chunk (example_env (Inr PyNone) (\<lambda>a. True)) example_bee (PyStr ''batch'')
        (PyBytes (replicate 4104 0)) PyNone OptionsNone
       = Inr (PyStr ''reference'')
   \<and> 4105 \<le> length (replicate 4200 (0 :: 8 word))
   \<and> upload_chunk (example_env (Inr PyNone) (\<lambda>a. True)) example_bee (PyStr ''batch'')
        (PyBytes (replicate 4200 0)) PyNone OptionsNone
       = Inl (raise_BeeArgumentError
               ''Chunk must have a maximum size of 4096 bytes. Received chunk size: 4200'' None)
   \<and> length (replicate 3 (0 :: 8 word)) < 8
   \<and> upload_chunk (example_env (Inr PyNone) (\<lambda>a. True)) example_bee (PyStr ''batch'')
        (PyBytes (replicate 3 0)) PyNone OptionsNone
       = Inl (raise_BeeArgumentError
               ''Chunk must have a minimum size of 8 bytes. Received chunk size: 3'' None)"
  using upload_chunk_size_checks [where b = "replicate 3 0" and env = "example_env (Inr PyNone) (\<lambda>a. True)"
        and self = example_bee and postage_batch_id = "PyStr ''batch''" and options = PyNone
        and request_options = OptionsNone]
    upload_chunk_size_checks [where b = "replicate 4104 0" and env = "example_env (Inr PyNone) (\<lambda>a. True)"
        and self = example_bee and postage_batch_id = "PyStr ''batch''" and options = PyNone
        and request_options = OptionsNone]
    upload_chunk_size_checks [where b = "replicate 4200 0" and env = "example_env (Inr PyNone) (\<lambda>a. True)"
        and self = example_bee and postage_batch_id = "PyStr ''batch''" and options = PyNone
        and request_options = OptionsNone]
  by (simp add: after_size_checks_def Bee__get_request_options_for_call_def example_env_def)

text \<open>
  C6.  The claim is that data shorter than 8 bytes and data of 4105 bytes or more fail
  with the size error.  Both checks call \<open>BeeArgumentError(msg)\<close> without the value the
  constructor requires: with 7 bytes and with 4105 bytes the upload stops with the
  constructor's \<open>TypeError\<close> and the size error is not raised.
\<close>

theorem upload_chunk_size_error_is_TypeError:
  "upload_chunk (example_env (Inr PyNone) (\<lambda>a. True)) example_bee (PyStr ''batch'')
      (PyBytes (replicate 7 0)) PyNone OptionsNone
     = Inl (TypeError (''BeeArgumentError.__init__() missing 1 required positional argument: ''
                        @ [CHR 0x27] @ ''value'' @ [CHR 0x27]))
   \<and> upload_chunk (example_env (Inr PyNone) (\<lambda>a. True)) example_bee (PyStr ''batch'')
      (PyBytes (replicate 4105 0)) PyNone OptionsNone
     = Inl (TypeError (''BeeArgumentError.__init__() missing 1 required positional argument: ''
                        @ [CHR 0x27] @ ''value'' @ [CHR 0x27]))"
  by (simp add: upload_chunk_def SPAN_SIZE_def CHUNK_SIZE_def raise_BeeArgumentError_def)

section \<open>Feed readers and writers\<close>

lemma getattr_resolve_signer:
  "Bee_getattr self ''resolve_signer'' = Inl (no_attribute ''resolve_signer'')"
  by (simp add: Bee_getattr_def Bee_instance_attributes_def Bee_class_attributes_def
      Bee_method_names_def split: option.split)

lemma make_feed_reader_never_returns:
  "make_feed_reader env self feed_type topic signer options \<noteq> Inr reader"
  by (simp add: make_feed_reader_def getattr_resolve_signer split: sum.split)

lemma make_feed_writer_never_returns:
  "make_feed_writer env self feed_type topic signer options \<noteq> Inr writer"
  by (simp add: make_feed_writer_def getattr_resolve_signer split: sum.split)

text \<open>
  C9.  For every argument combination that passes the input validation (the feed type
  check, the request options check and the canonical topic), both \<open>make_feed_reader\<close> and
  \<open>make_feed_writer\<close> raise \<open>AttributeError\<close> for the name \<open>resolve_signer\<close>, which no
  instance of \<open>Bee\<close> has, before a reader or writer is made.
\<close>

theorem feed_reader_writer_attribute_error:
  assumes "assert_feed_type env feed_type = Inr ()"
    and "assert_request_options env options ''RequestOptions'' = Inr ()"
    and "make_topic env topic = Inr canonical_topic"
  shows "make_feed_reader env self feed_type topic signer options
           = Inl (no_attribute ''resolve_signer'')
       \<and> make_feed_writer env self feed_type topic signer options
           = Inl (no_attribute ''resolve_signer'')"
  using assms by (simp add: make_feed_reader_def make_feed_writer_def getattr_resolve_signer)

theorem feed_reader_writer_attribute_error_witness:
  "assert_feed_type (example_env (Inr PyNone) (\<lambda>a. True)) (FeedTypeStr ''sequence'') = Inr ()
   \<and> assert_request_options (example_env (Inr PyNone) (\<lambda>a. True)) OptionsNone ''RequestOptions'' = Inr ()
   \<and> make_topic (example_env (Inr PyNone) (\<lambda>a. True)) (PyBytes example_topic) = Inr example_topic
   \<and> make_feed_reader (example_env (Inr PyNone) (\<lambda>a. True)) example_bee
        (FeedTypeStr ''sequence'') (PyBytes example_topic) (PyObject ''Signer'' 1) OptionsNone
       = Inl (no_attribute ''resolve_signer'')
   \<and> make_feed_writer (example_env (Inr PyNone) (\<lambda>a. True)) example_bee
        (FeedTypeStr ''sequence'') (PyBytes example_topic) (PyObject ''Signer'' 1) OptionsNone
       = Inl (no_attribute ''resolve_signer'')"
proof -
  let ?env = "example_env (Inr PyNone) (\<lambda>a. True)"
  have a: "assert_feed_type ?env (FeedTypeStr ''sequence'') = Inr ()"
    by (simp add: assert_feed_type_def)
  have b: "assert_request_options ?env OptionsNone ''RequestOptions'' = Inr ()"
    by simp
  have c: "make_topic ?env (PyBytes example_topic) = Inr example_topic"
    by (simp add: example_env_def example_bytes_def)
  from a b c
    feed_reader_writer_attribute_error [OF a b c, of example_bee "PyObject ''Signer'' 1"]
  show ?thesis by simp
qed

section \<open>Feed retrievability\<close>

lemma all_retrievable_iff: "all_retrievable ex xs \<longleftrightarrow> (\<forall>a\<in>set xs. ex a)"
  by (induction xs) simp_all

text \<open>
  With a non-zero index on a sequence feed the check is the prefix check: true exactly
  when every index from 0 up to the target is retrievable.
\<close>

lemma is_feed_retrievable_prefix:
  assumes "make_eth_address env owner = Inr canonical_owner"
    and "make_topic env topic = Inr canonical_topic"
    and "Bee__get_request_options_for_call env self options = Inr ro"
    and "n \<noteq> 0"
  shows "is_feed_retrievable env self SEQUENCE owner topic (Some n) options
     = Inr (\<forall>i\<in>{0..n}. transport_exists env ro
               (sequence_update_address env canonical_owner canonical_topic i))"
  using assms
  by (simp add: is_feed_retrievable_def are_all_sequential_feeds_update_retrievable_def
      all_retrievable_iff)

lemma sequence_update_address_example:
  "sequence_update_address (example_env latest ex) owner topic i
     = replicate 24 0 @ write_uint64_big_endian (word_of_int i) @ topic @ owner"
  by (simp add: sequence_update_address_def soc_address_def feed_identifier_def example_env_def)

text \<open>
  The spec's scenario: with the updates 0, 1 and 2 in the transport the feed is
  retrievable at index 2; without the chunk of index 1 it is not.
\<close>

lemma is_feed_retrievable_prefix_witness:
  "is_feed_retrievable (example_env (Inr PyNone) (\<lambda>a. True)) example_bee SEQUENCE
      (PyBytes example_owner) (PyBytes example_topic) (Some 2) OptionsNone = Inr True
   \<and> is_feed_retrievable
      (example_env (Inr PyNone)
         (\<lambda>a. a \<noteq> replicate 24 0 @ write_uint64_big_endian 1 @ example_topic @ example_owner))
      example_bee SEQUENCE
      (PyBytes example_owner) (PyBytes example_topic) (Some 2) OptionsNone = Inr False"
  using is_feed_retrievable_prefix [where env = "example_env (Inr PyNone) (\<lambda>a. True)"
      and owner = "PyBytes example_owner" and topic = "PyBytes example_topic"
      and canonical_owner = example_owner and canonical_topic = example_topic
      and self = example_bee and options = OptionsNone
      and ro = "OptionsModel example_request_options" and n = 2]
   is_feed_retrievable_prefix [where env = "example_env (Inr PyNone)
         (\<lambda>a. a \<noteq> replicate 24 0 @ write_uint64_big_endian 1 @ example_topic @ example_owner)"
      and owner = "PyBytes example_owner" and topic = "PyBytes example_topic"
      and canonical_owner = example_owner and canonical_topic = example_topic
      and self = example_bee and options = OptionsNone
      and ro = "OptionsModel example_request_options" and n = 2]
  apply (simp add: sequence_update_address_example)
  apply (simp add: example_env_def example_bytes_def Bee__get_request_options_for_call_def
      example_bee_def)
  apply (rule bexI [of _ 1])
   apply simp_all
  done

text \<open>With a non-zero index on any other feed type the check is refused.\<close>

lemma is_feed_retrievable_unsupported:
  assumes "make_eth_address env owner = Inr canonical_owner"
    and "make_topic env topic = Inr canonical_topic"
    and "n \<noteq> 0" and "feed_type \<noteq> SEQUENCE"
  shows "is_feed_retrievable env self feed_type owner topic (Some n) options
     = Inl (BeeError ''Only Sequence type of Feeds is supported at the moment'')"
  using assms by (simp add: is_feed_retrievable_def)

lemma is_feed_retrievable_unsupported_witness:
  "is_feed_retrievable (example_env (Inr PyNone) (\<lambda>a. True)) example_bee EPOCH
      (PyBytes example_owner) (PyBytes example_topic) (Some 1) OptionsNone
     = Inl (BeeError ''Only Sequence type of Feeds is supported at the moment'')"
  using is_feed_retrievable_unsupported [where env = "example_env (Inr PyNone) (\<lambda>a. True)"
      and owner = "PyBytes example_owner" and topic = "PyBytes example_topic"
      and canonical_owner = example_owner and canonical_topic = example_topic
      and self = example_bee and options = OptionsNone and n = 1 and feed_type = EPOCH]
  by (simp add: example_env_def example_bytes_def)

text \<open>
  Without an index, and with index 0, the result is never \<open>False\<close>: the call returns
  \<open>True\<close> or raises.
\<close>

lemma is_feed_retrievable_latest_never_False:
  "is_feed_retrievable env self feed_type owner topic None options \<noteq> Inr False"
  by (simp add: is_feed_retrievable_def reraise_BeeError_def split: sum.split)

lemma is_feed_retrievable_zero_never_False:
  "is_feed_retrievable env self feed_type owner topic (Some 0) options \<noteq> Inr False"
  by (simp add: is_feed_retrievable_def reraise_BeeError_def split: sum.split)

text \<open>In the concrete setting the fetch-latest path hands on the outcome of the download.\<close>

lemma is_feed_retrievable_latest_example:
  "is_feed_retrievable (example_env latest ex) example_bee feed_type
      (PyBytes owner) (PyBytes topic) None options
     = (case latest of Inl e \<Rightarrow> Inl e | Inr update \<Rightarrow> Inr True)"
  by (simp add: is_feed_retrievable_def Bee__make_feed_reader_def
      Bee__get_request_options_for_call_def example_env_def example_bytes_def reraise_BeeError_def
      split: sum.split)

lemma is_feed_retrievable_zero_example:
  "is_feed_retrievable (example_env latest ex) example_bee feed_type
      (PyBytes owner) (PyBytes topic) (Some 0) options
     = (case latest of Inl e \<Rightarrow> Inl e | Inr update \<Rightarrow> Inr True)"
  by (simp add: is_feed_retrievable_def Bee__make_feed_reader_def
      Bee__get_request_options_for_call_def example_env_def example_bytes_def reraise_BeeError_def
      split: sum.split)

text \<open>
  C1.  The claim is that with a target index N the result is true exactly when every
  index 0..N is retrievable, and false at the first missing one.  At N = 0 the code does
  not look at index 0 at all: on a sequence feed none of whose chunks the transport holds,
  and whose latest update cannot be downloaded, the call with index 0 raises the
  download's exception instead of returning false.
\<close>

theorem is_feed_retrievable_index_zero_missing:
  "\<not> transport_exists (example_env (Inl (BeeError ''Not Found'')) (\<lambda>a. False))
       (OptionsModel example_request_options)
       (sequence_update_address (example_env (Inl (BeeError ''Not Found'')) (\<lambda>a. False))
          example_owner example_topic 0)
   \<and> is_feed_retrievable (example_env (Inl (BeeError ''Not Found'')) (\<lambda>a. False)) example_bee
       SEQUENCE (PyBytes example_owner) (PyBytes example_topic) (Some 0) OptionsNone
     = Inl (BeeError ''Not Found'')"
  by (simp add: is_feed_retrievable_zero_example) (simp add: example_env_def)

text \<open>
  C2.  The claim is that, without an index, the absence of the feed's latest update is
  turned into the result false.  The handler of the code re-raises: where the download
  of the latest update raises \<open>BeeError\<close>, the call raises the same exception.
\<close>

theorem is_feed_retrievable_latest_propagates:
  "is_feed_retrievable (example_env (Inl (BeeError ''Not Found'')) (\<lambda>a. False)) example_bee
       SEQUENCE (PyBytes example_owner) (PyBytes example_topic) None OptionsNone
     = Inl (BeeError ''Not Found'')"
  by (simp add: is_feed_retrievable_latest_example)

text \<open>
  C7.  The claim is that an index together with a feed type other than SEQUENCE is
  refused.  With index 0 on an epoch feed whose latest update downloads, the code takes
  the fetch-latest path and returns true.
\<close>

theorem is_feed_retrievable_epoch_index_zero:
  "is_feed_retrievable (example_env (Inr (PyBytes [1, 2, 3])) (\<lambda>a. True)) example_bee
       EPOCH (PyBytes example_owner) (PyBytes example_topic) (Some 0) OptionsNone
     = Inr True"
  by (simp add: is_feed_retrievable_zero_example)

text \<open>
  C10.  With index 0 the fetch-latest path runs: after the canonical forms of owner and
  topic, the result is the outcome of making the feed reader and downloading the latest
  update, true where the download succeeds and its exception otherwise.  That is exactly
  the call with no index, for every feed type and in particular for a sequence feed: the
  test \<open>if not index\<close> takes 0 for absent.  No prefix verification is performed: the
  result does not depend on which chunks the transport holds.
\<close>

theorem is_feed_retrievable_index_zero_as_absent:
  "is_feed_retrievable env self feed_type owner topic (Some 0) options
     = (case make_eth_address env owner of
          Inl e \<Rightarrow> Inl e
        | Inr canonical_owner \<Rightarrow>
       (case make_topic env topic of
          Inl e \<Rightarrow> Inl e
        | Inr canonical_topic \<Rightarrow>
       (case Bee__make_feed_reader env self builtin_type
               (PyBytes canonical_topic) (PyBytes canonical_owner) OptionsNone of
          Inl e \<Rightarrow> Inl e
        | Inr reader \<Rightarrow>
            (case reader_download reader options of
               Inl e \<Rightarrow> Inl e
             | Inr update \<Rightarrow> Inr True))))
   \<and> is_feed_retrievable env self feed_type owner topic (Some 0) options
     = is_feed_retrievable env self feed_type owner topic None options
   \<and> is_feed_retrievable (env\<lparr>transport_exists := ex\<rparr>) self SEQUENCE owner topic (Some 0) options
     = is_feed_retrievable env self SEQUENCE owner topic (Some 0) options"
  by (simp add: is_feed_retrievable_def Bee__make_feed_reader_def
      Bee__get_request_options_for_call_def reraise_BeeError_def cong: sum.case_cong)

end
